theory Spec2Isabelle
  imports Complex_Main "HOL-Library.Word"
begin

unbundle bit_operations_syntax

section \<open>Floating-point values and their comparisons\<close>

text \<open>
  Every numeric column read by the task (\<^verbatim>\<open>v0cosPA\<close>, \<^verbatim>\<open>yK0Short\<close>, \<^verbatim>\<open>tpcNSigmaPi\<close>,
  \<^verbatim>\<open>v0radius\<close>, \<^verbatim>\<open>pt\<close>, \<^verbatim>\<open>mK0Short\<close>, the vertex position) is a C++ \<^verbatim>\<open>float\<close>, and the
  thresholds are \<^verbatim>\<open>Configurable<double>\<close> or \<^verbatim>\<open>Configurable<float>\<close>. The task never computes
  with them: it only compares them and hands them to the histogram registry. A comparison of
  a \<^verbatim>\<open>float\<close> with a \<^verbatim>\<open>double\<close> promotes the \<^verbatim>\<open>float\<close> exactly, so every comparison is the
  comparison of the two values as extended real numbers, with the IEEE rule that a
  comparison involving a NaN is false. The model keeps exactly that: a value is a finite
  real, an infinity or NaN (every \<^verbatim>\<open>float\<close> and \<^verbatim>\<open>double\<close> is one of these). A decimal
  literal stands for the \<^verbatim>\<open>float\<close> or \<^verbatim>\<open>double\<close> nearest to it; no \<^verbatim>\<open>float\<close> lies between
  the \<^verbatim>\<open>double\<close> \<^verbatim>\<open>0.995\<close> and the real number 0.995, so the default cut on the cosine is
  the cut at the real number.
\<close>

datatype fp = NaN | NegInf | Fin real | PosInf

text \<open>C++ \<^verbatim>\<open>a < b\<close>.\<close>

fun fp_less :: "fp \<Rightarrow> fp \<Rightarrow> bool" where
  "fp_less NaN y = False"
| "fp_less x NaN = False"
| "fp_less NegInf y = (y \<noteq> NegInf)"
| "fp_less x NegInf = False"
| "fp_less PosInf y = False"
| "fp_less x PosInf = True"
| "fp_less (Fin a) (Fin b) = (a < b)"

text \<open>C++ \<^verbatim>\<open>a > b\<close>, \<^verbatim>\<open>a <= b\<close> and \<^verbatim>\<open>a >= b\<close>: each is false when an operand is NaN.\<close>

definition fp_greater :: "fp \<Rightarrow> fp \<Rightarrow> bool" where
  "fp_greater a b = fp_less b a"

definition fp_le :: "fp \<Rightarrow> fp \<Rightarrow> bool" where
  "fp_le a b = (a \<noteq> NaN \<and> b \<noteq> NaN \<and> \<not> fp_less b a)"

definition fp_ge :: "fp \<Rightarrow> fp \<Rightarrow> bool" where
  "fp_ge a b = fp_le b a"

text \<open>\<^verbatim>\<open>TMath::Abs\<close> on a floating-point value.\<close>

fun fp_abs :: "fp \<Rightarrow> fp" where
  "fp_abs NaN = NaN"
| "fp_abs NegInf = PosInf"
| "fp_abs PosInf = PosInf"
| "fp_abs (Fin a) = Fin \<bar>a\<bar>"

text \<open>
  The conversions to \<^verbatim>\<open>double\<close> that \<^verbatim>\<open>registry.fill\<close> applies to a \<^verbatim>\<open>bool\<close> and to an
  \<^verbatim>\<open>int\<close> argument.
\<close>

definition fp_of_bool :: "bool \<Rightarrow> fp" where
  "fp_of_bool b = Fin (if b then 1 else 0)"

definition fp_of_int :: "int \<Rightarrow> fp" where
  "fp_of_int n = Fin (real_of_int n)"

section \<open>The rows of the input tables\<close>

text \<open>
  A row of \<^verbatim>\<open>SelectedCollisions\<close>, of \<^verbatim>\<open>PIDTracks\<close> and of \<^verbatim>\<open>aod::V0Datas\<close>, with the
  columns the task reads. The column declarations belong to the framework; each accessor is
  a field of the row. \<^verbatim>\<open>v0cosPA\<close> takes the vertex position, so it is a function field.
  \<^verbatim>\<open>posTrack_as<PIDTracks>()\<close> and \<^verbatim>\<open>negTrack_as<PIDTracks>()\<close> resolve the daughter indices
  of the V0 in the track table; the V0 row of the model holds the two resolved rows, and
  the \<^verbatim>\<open>tracks\<close> argument of \<^verbatim>\<open>process\<close>, which its body never names, is left out.
\<close>

record collision =
  posX :: fp
  posY :: fp
  posZ :: fp
  sel8 :: bool

record track =
  hasTPC :: bool
  hasITS :: bool
  itsClusterMap :: "8 word"
  tpcNSigmaPi :: fp

record V0Data =
  posTrack :: track
  negTrack :: track
  v0cosPA :: "fp \<Rightarrow> fp \<Rightarrow> fp \<Rightarrow> fp"
  yK0Short :: fp
  v0radius :: fp
  pt :: fp
  mK0Short :: fp

section \<open>The histogram registry\<close>

text \<open>
  \<^verbatim>\<open>init\<close> registers twelve histograms, and \<^verbatim>\<open>process\<close> names every histogram by a
  compile-time constant \<^verbatim>\<open>HIST("...")\<close>. The names are a datatype (the constructor
  \<open>Test_h_R\<close> is \<^verbatim>\<open>"Test/h_R"\<close>, and so on), so a fill of a name that was never registered
  cannot be written. A histogram is the sequence of the coordinate tuples it was filled
  with, oldest first; the content of a bin is the number of fills that fall into it.
\<close>

datatype HistName =
    h_EventCounter
  | h5_RpTmassITSStatus
  | h5_RpTmassIBStatus
  | Test_h_R
  | Test_h_pT
  | Test_h_mass
  | Test_h_negITSStatus
  | Test_h_posITSStatus
  | Test_h_negIBStatus
  | Test_h_posIBStatus
  | Test_h_negIBhits
  | Test_h_posIBhits

type_synonym HistogramRegistry = "HistName \<Rightarrow> fp list list"

record AxisSpec =
  nBins :: nat
  binMin :: real
  binMax :: real

definition RAxis :: AxisSpec where
  "RAxis = \<lparr>nBins = 100, binMin = 0, binMax = 10\<rparr>"

definition pTAxis :: AxisSpec where
  "pTAxis = \<lparr>nBins = 200, binMin = 0, binMax = 10\<rparr>"

definition mAxis :: AxisSpec where
  "mAxis = \<lparr>nBins = 200, binMin = 0.4, binMax = 0.6\<rparr>"

definition statusAxis :: AxisSpec where
  "statusAxis = \<lparr>nBins = 2, binMin = - 0.5, binMax = 1.5\<rparr>"

definition nhitsAxis :: AxisSpec where
  "nhitsAxis = \<lparr>nBins = 4, binMin = - 0.5, binMax = 3.5\<rparr>"

text \<open>The axes each histogram is registered with in \<^verbatim>\<open>init\<close>.\<close>

fun axes :: "HistName \<Rightarrow> AxisSpec list" where
  "axes h_EventCounter = [\<lparr>nBins = 2, binMin = - 0.5, binMax = 1.5\<rparr>]"
| "axes h5_RpTmassITSStatus = [RAxis, pTAxis, mAxis, statusAxis, statusAxis]"
| "axes h5_RpTmassIBStatus = [RAxis, pTAxis, mAxis, statusAxis, statusAxis]"
| "axes Test_h_R = [RAxis]"
| "axes Test_h_pT = [pTAxis]"
| "axes Test_h_mass = [mAxis]"
| "axes Test_h_negITSStatus = [statusAxis]"
| "axes Test_h_posITSStatus = [statusAxis]"
| "axes Test_h_negIBStatus = [statusAxis]"
| "axes Test_h_posIBStatus = [statusAxis]"
| "axes Test_h_negIBhits = [nhitsAxis]"
| "axes Test_h_posIBhits = [nhitsAxis]"

text \<open>
  The bin of an axis with equal-width bins that a value falls into, as ROOT's
  \<^verbatim>\<open>TAxis::FindBin\<close> computes it: 0 is the underflow bin, \<open>nBins + 1\<close> the overflow bin
  (which also takes NaN), and bins 1 to \<open>nBins\<close> divide the range. The quotient is taken
  in the reals; at the values 0 and 1 that fill \<^verbatim>\<open>h_EventCounter\<close> the \<^verbatim>\<open>double\<close> arithmetic
  of ROOT is exact.
\<close>

definition findBin :: "AxisSpec \<Rightarrow> fp \<Rightarrow> nat" where
  "findBin ax x =
     (if fp_less x (Fin (binMin ax)) then 0
      else if \<not> fp_less x (Fin (binMax ax)) then nBins ax + 1
      else (case x of
              Fin r \<Rightarrow> 1 + nat \<lfloor>real (nBins ax) * (r - binMin ax) / (binMax ax - binMin ax)\<rfloor>
            | _ \<Rightarrow> nBins ax + 1))"

text \<open>The content of the bin with the given index on every axis.\<close>

definition binContent :: "AxisSpec list \<Rightarrow> nat list \<Rightarrow> fp list list \<Rightarrow> nat" where
  "binContent axs bins fills =
     length (filter (\<lambda>xs. map (\<lambda>(ax, x). findBin ax x) (zip axs xs) = bins) fills)"

text \<open>
  \<^verbatim>\<open>init\<close> labels bin 1 of \<^verbatim>\<open>h_EventCounter\<close> "Total" and bin 2 "Selected".
\<close>

definition TotalBin :: nat where
  "TotalBin = 1"

definition SelectedBin :: nat where
  "SelectedBin = 2"

section \<open>The task\<close>

text \<open>
  The struct \<^verbatim>\<open>qaK0sTrackingEfficiency\<close>: its registry and its four configurables. Each
  member function takes the struct and returns it, so that what a member function does to
  the registry is part of its result.
\<close>

record qaK0sTrackingEfficiency =
  registry :: HistogramRegistry
  v0cospa :: fp
  rapidity :: fp
  nSigTPC :: fp
  eventSelection :: bool

text \<open>
  The default member initialisers of the four configurables (lines 62 to 65), around a
  given registry.
\<close>

definition configurableDefaults :: "HistogramRegistry \<Rightarrow> qaK0sTrackingEfficiency" where
  "configurableDefaults reg = \<lparr>registry = reg, v0cospa = Fin 0.995, rapidity = Fin 0.5,
                                 nSigTPC = Fin 10, eventSelection = True\<rparr>"

text \<open>\<^verbatim>\<open>init\<close>, lines 35 to 59: the twelve histograms, with the axes above, all empty.\<close>

definition emptyRegistry :: HistogramRegistry where
  "emptyRegistry h = []"

definition init :: "qaK0sTrackingEfficiency \<Rightarrow> qaK0sTrackingEfficiency" where
  "init t = t\<lparr>registry := emptyRegistry\<rparr>"

text \<open>\<^verbatim>\<open>registry.fill(HIST(h), xs...)\<close>.\<close>

definition fill :: "HistName \<Rightarrow> fp list \<Rightarrow> qaK0sTrackingEfficiency \<Rightarrow> qaK0sTrackingEfficiency" where
  "fill h xs t = t\<lparr>registry := (registry t)(h := registry t h @ [xs])\<rparr>"

text \<open>\<^verbatim>\<open>acceptV0\<close>, lines 67 to 78: four rejections in the order of the source.\<close>

definition acceptV0 ::
  "qaK0sTrackingEfficiency \<Rightarrow> V0Data \<Rightarrow> track \<Rightarrow> track \<Rightarrow> collision \<Rightarrow> bool \<times> qaK0sTrackingEfficiency" where
  "acceptV0 t v0 ptrack ntrack coll =
     (if fp_less (v0cosPA v0 (posX coll) (posY coll) (posZ coll)) (v0cospa t) then (False, t)
      else if fp_greater (fp_abs (yK0Short v0)) (rapidity t) then (False, t)
      else if \<not> hasTPC ptrack \<or> \<not> hasTPC ntrack then (False, t)
      else if fp_greater (tpcNSigmaPi ptrack) (nSigTPC t) \<or> fp_greater (tpcNSigmaPi ntrack) (nSigTPC t)
        then (False, t)
      else (True, t))"

text \<open>
  The test \<^verbatim>\<open>itsClusterMap() & (1 << i)\<close> of lines 108 and 111: the \<^verbatim>\<open>uint8_t\<close> map is
  promoted to \<^verbatim>\<open>int\<close> (32 bits, here as its bit pattern), and the result counts as true
  when it is not zero.
\<close>

definition layerHit :: "8 word \<Rightarrow> nat \<Rightarrow> bool" where
  "layerHit m i = ((ucast m :: 32 word) AND push_bit i 1 \<noteq> 0)"

text \<open>
  The loop of lines 107 to 114, entered with \<open>i = 0\<close> and both counters 0. The counters are
  C++ \<^verbatim>\<open>int\<close>s that never exceed 3.
\<close>

function ibLoop :: "nat \<Rightarrow> track \<Rightarrow> track \<Rightarrow> int \<times> int \<Rightarrow> int \<times> int" where
  "ibLoop i reconegtrack recopostrack (negIBNhits, posIBNhits) =
     (if i < 3 then
        ibLoop (i + 1) reconegtrack recopostrack
          (if layerHit (itsClusterMap reconegtrack) i then negIBNhits + 1 else negIBNhits,
           if layerHit (itsClusterMap recopostrack) i then posIBNhits + 1 else posIBNhits)
      else (negIBNhits, posIBNhits))"
  by pat_completeness auto
termination
  by (relation "measure (\<lambda>(i, n, p, c). 3 - i)") auto

declare ibLoop.simps [simp del]

text \<open>The body of the loop over the V0s, lines 91 to 123.\<close>

definition processV0 :: "collision \<Rightarrow> V0Data \<Rightarrow> qaK0sTrackingEfficiency \<Rightarrow> qaK0sTrackingEfficiency" where
  "processV0 coll v0 t =
     (let recopostrack = posTrack v0;
          reconegtrack = negTrack v0;
          (accepted, t) = acceptV0 t v0 recopostrack reconegtrack coll
      in if accepted then
           (let t = fill Test_h_R [v0radius v0] t;
                t = fill Test_h_pT [pt v0] t;
                t = fill Test_h_mass [mK0Short v0] t;
                negHasITS = hasITS reconegtrack;
                posHasITS = hasITS reconegtrack;
                t = fill Test_h_negITSStatus [fp_of_bool negHasITS] t;
                t = fill Test_h_posITSStatus [fp_of_bool posHasITS] t;
                t = fill h5_RpTmassITSStatus
                      [v0radius v0, pt v0, mK0Short v0, fp_of_bool negHasITS, fp_of_bool posHasITS] t;
                (negIBNhits, posIBNhits) = ibLoop 0 reconegtrack recopostrack (0, 0);
                negHasIB = (negIBNhits \<noteq> 0);
                posHasIB = (posIBNhits \<noteq> 0);
                t = fill Test_h_negIBStatus [fp_of_bool negHasIB] t;
                t = fill Test_h_posIBStatus [fp_of_bool posHasIB] t;
                t = fill Test_h_negIBhits [fp_of_int negIBNhits] t;
                t = fill Test_h_posIBhits [fp_of_int posIBNhits] t
            in fill h5_RpTmassIBStatus
                 [v0radius v0, pt v0, mK0Short v0, fp_of_bool negHasIB, fp_of_bool posHasIB] t)
         else t)"

text \<open>The loop \<^verbatim>\<open>for (auto& v0 : fullV0s)\<close> of line 89.\<close>

fun v0Loop :: "collision \<Rightarrow> V0Data list \<Rightarrow> qaK0sTrackingEfficiency \<Rightarrow> qaK0sTrackingEfficiency" where
  "v0Loop coll [] t = t"
| "v0Loop coll (v0 # fullV0s) t = v0Loop coll fullV0s (processV0 coll v0 t)"

text \<open>\<^verbatim>\<open>process\<close>, lines 80 to 125.\<close>

definition process :: "collision \<Rightarrow> V0Data list \<Rightarrow> qaK0sTrackingEfficiency \<Rightarrow> qaK0sTrackingEfficiency" where
  "process coll fullV0s t =
     (let t = fill h_EventCounter [Fin 0] t
      in if eventSelection t \<and> \<not> sel8 coll then t
         else (let t = fill h_EventCounter [Fin 1] t
               in v0Loop coll fullV0s t))"

text \<open>
  The framework calls \<^verbatim>\<open>process\<close> once for every collision of the input, with the V0s of
  that collision. A batch is the list of these calls' arguments, in the order of the calls.
\<close>

fun processBatch :: "(collision \<times> V0Data list) list \<Rightarrow> qaK0sTrackingEfficiency \<Rightarrow> qaK0sTrackingEfficiency" where
  "processBatch [] t = t"
| "processBatch ((coll, fullV0s) # evs) t = processBatch evs (process coll fullV0s t)"

text \<open>The content of a bin of \<^verbatim>\<open>h_EventCounter\<close>.\<close>

definition eventCounter :: "nat \<Rightarrow> qaK0sTrackingEfficiency \<Rightarrow> nat" where
  "eventCounter b t = binContent (axes h_EventCounter) [b] (registry t h_EventCounter)"

section \<open>The specification's wording\<close>

text \<open>
  The acceptance condition as the specification words it: pointing-angle cosine at least the
  threshold, absolute rapidity at most the threshold, a TPC hit on both daughters, and the
  pion PID deviation of both daughters at most the threshold.
\<close>

definition acceptV0_spec :: "qaK0sTrackingEfficiency \<Rightarrow> V0Data \<Rightarrow> track \<Rightarrow> track \<Rightarrow> collision \<Rightarrow> bool" where
  "acceptV0_spec t v0 ptrack ntrack coll =
     (fp_ge (v0cosPA v0 (posX coll) (posY coll) (posZ coll)) (v0cospa t)
      \<and> fp_le (fp_abs (yK0Short v0)) (rapidity t)
      \<and> hasTPC ptrack \<and> hasTPC ntrack
      \<and> fp_le (tpcNSigmaPi ptrack) (nSigTPC t)
      \<and> fp_le (tpcNSigmaPi ntrack) (nSigTPC t))"

text \<open>
  The inner-barrel hit count as the specification words it: the number of set bits among
  the bit indices 0, 1 and 2 of the cluster map.
\<close>

definition innerBarrelHits_spec :: "8 word \<Rightarrow> int" where
  "innerBarrelHits_spec m = int (length (filter (bit m) [0, 1, 2]))"

section \<open>Example inputs\<close>

text \<open>
  A pointing-angle column that has the same value at every vertex position, a daughter
  track, a V0 with two such daughters and a collision at the origin.
\<close>

definition cosPA_const :: "fp \<Rightarrow> fp \<Rightarrow> fp \<Rightarrow> fp \<Rightarrow> fp" where
  "cosPA_const v x y z = v"

definition exTrack :: "bool \<Rightarrow> 8 word \<Rightarrow> fp \<Rightarrow> track" where
  "exTrack its m nsigma = \<lparr>hasTPC = True, hasITS = its, itsClusterMap = m, tpcNSigmaPi = nsigma\<rparr>"

definition exV0 :: "fp \<Rightarrow> track \<Rightarrow> track \<Rightarrow> V0Data" where
  "exV0 cpa ptrack ntrack =
     \<lparr>posTrack = ptrack, negTrack = ntrack, v0cosPA = cosPA_const cpa, yK0Short = Fin 0.1,
      v0radius = Fin 2.5, pt = Fin 1.2, mK0Short = Fin 0.4976\<rparr>"

definition exCollision :: "bool \<Rightarrow> collision" where
  "exCollision good = \<lparr>posX = Fin 0, posY = Fin 0, posZ = Fin 0, sel8 = good\<rparr>"

definition exTask :: "bool \<Rightarrow> qaK0sTrackingEfficiency" where
  "exTask evsel = (init (configurableDefaults emptyRegistry))\<lparr>eventSelection := evsel\<rparr>"

section \<open>An invariant of the registry\<close>

text \<open>
  Every fill of \<^verbatim>\<open>h5_RpTmassITSStatus\<close> has equal fourth and fifth coordinates, and
  \<^verbatim>\<open>Test/h_negITSStatus\<close> and \<^verbatim>\<open>Test/h_posITSStatus\<close> hold the same fills.
\<close>

definition itsStatusInv :: "qaK0sTrackingEfficiency \<Rightarrow> bool" where
  "itsStatusInv t =
     ((\<forall>xs \<in> set (registry t h5_RpTmassITSStatus). xs ! 3 = xs ! 4)
      \<and> registry t Test_h_negITSStatus = registry t Test_h_posITSStatus)"

section \<open>Auxiliary facts\<close>

lemma acceptV0_snd: "snd (acceptV0 t v0 ptrack ntrack coll) = t"
  by (simp add: acceptV0_def)

lemma acceptV0_fst:
  "fst (acceptV0 t v0 ptrack ntrack coll) =
     (\<not> fp_less (v0cosPA v0 (posX coll) (posY coll) (posZ coll)) (v0cospa t)
      \<and> \<not> fp_greater (fp_abs (yK0Short v0)) (rapidity t)
      \<and> hasTPC ptrack \<and> hasTPC ntrack
      \<and> \<not> fp_greater (tpcNSigmaPi ptrack) (nSigTPC t)
      \<and> \<not> fp_greater (tpcNSigmaPi ntrack) (nSigTPC t))"
  by (auto simp add: acceptV0_def)

lemma acceptV0_pair:
  "acceptV0 t v0 ptrack ntrack coll = (fst (acceptV0 t v0 ptrack ntrack coll), t)"
  by (simp add: acceptV0_def)

lemma fp_abs_NaN: "fp_abs x = NaN \<longleftrightarrow> x = NaN"
  by (cases x) simp_all

lemma layerHit_bit: "i < 8 \<Longrightarrow> layerHit m i = bit m i"
proof -
  assume i: "i < 8"
  have "layerHit m i = bit (ucast m :: 32 word) i"
    unfolding layerHit_def by (rule bit_iff_and_push_bit_not_eq_0 [symmetric])
  also have "\<dots> = bit m i"
    using i by (simp add: bit_ucast_iff)
  finally show ?thesis .
qed

lemma ibLoop_result:
  "ibLoop 0 n p (0, 0) =
     (innerBarrelHits_spec (itsClusterMap n), innerBarrelHits_spec (itsClusterMap p))"
proof -
  have three: "ibLoop (Suc (Suc (Suc 0))) n p c = c" for c
    by (cases c) (simp add: ibLoop.simps)
  have step: "i < 3 \<Longrightarrow> ibLoop i n p (a, b) =
      ibLoop (Suc i) n p (if bit (itsClusterMap n) i then a + 1 else a,
                         if bit (itsClusterMap p) i then b + 1 else b)" for i a b
    by (subst ibLoop.simps) (simp add: layerHit_bit)
  show ?thesis
    by (simp add: step three numeral_2_eq_2 innerBarrelHits_spec_def)
qed

lemma innerBarrelHits_spec_range: "0 \<le> innerBarrelHits_spec m \<and> innerBarrelHits_spec m \<le> 3"
  by (simp add: innerBarrelHits_spec_def)

lemma processV0_rejected:
  "\<not> fst (acceptV0 t v0 (posTrack v0) (negTrack v0) coll) \<Longrightarrow> processV0 coll v0 t = t"
  by (subst processV0_def, subst acceptV0_pair) (simp add: Let_def)

lemma processV0_accepted:
  assumes "fst (acceptV0 t v0 (posTrack v0) (negTrack v0) coll)"
  shows "processV0 coll v0 t =
     t\<lparr>registry := (registry t)
        (Test_h_R := registry t Test_h_R @ [[v0radius v0]],
         Test_h_pT := registry t Test_h_pT @ [[pt v0]],
         Test_h_mass := registry t Test_h_mass @ [[mK0Short v0]],
         Test_h_negITSStatus := registry t Test_h_negITSStatus @ [[fp_of_bool (hasITS (negTrack v0))]],
         Test_h_posITSStatus := registry t Test_h_posITSStatus @ [[fp_of_bool (hasITS (negTrack v0))]],
         h5_RpTmassITSStatus := registry t h5_RpTmassITSStatus @
           [[v0radius v0, pt v0, mK0Short v0, fp_of_bool (hasITS (negTrack v0)),
             fp_of_bool (hasITS (negTrack v0))]],
         Test_h_negIBStatus := registry t Test_h_negIBStatus @
           [[fp_of_bool (innerBarrelHits_spec (itsClusterMap (negTrack v0)) \<noteq> 0)]],
         Test_h_posIBStatus := registry t Test_h_posIBStatus @
           [[fp_of_bool (innerBarrelHits_spec (itsClusterMap (posTrack v0)) \<noteq> 0)]],
         Test_h_negIBhits := registry t Test_h_negIBhits @
           [[fp_of_int (innerBarrelHits_spec (itsClusterMap (negTrack v0)))]],
         Test_h_posIBhits := registry t Test_h_posIBhits @
           [[fp_of_int (innerBarrelHits_spec (itsClusterMap (posTrack v0)))]],
         h5_RpTmassIBStatus := registry t h5_RpTmassIBStatus @
           [[v0radius v0, pt v0, mK0Short v0,
             fp_of_bool (innerBarrelHits_spec (itsClusterMap (negTrack v0)) \<noteq> 0),
             fp_of_bool (innerBarrelHits_spec (itsClusterMap (posTrack v0)) \<noteq> 0)]])\<rparr>"
  using assms
  by (subst processV0_def, subst acceptV0_pair) (simp add: Let_def ibLoop_result fill_def)

lemma processV0_eventCounter: "registry (processV0 coll v0 t) h_EventCounter = registry t h_EventCounter"
  by (cases "fst (acceptV0 t v0 (posTrack v0) (negTrack v0) coll)")
     (simp_all add: processV0_accepted processV0_rejected)

lemma processV0_configurables:
  "v0cospa (processV0 coll v0 t) = v0cospa t \<and> rapidity (processV0 coll v0 t) = rapidity t
   \<and> nSigTPC (processV0 coll v0 t) = nSigTPC t
   \<and> eventSelection (processV0 coll v0 t) = eventSelection t"
  by (cases "fst (acceptV0 t v0 (posTrack v0) (negTrack v0) coll)")
     (simp_all add: processV0_accepted processV0_rejected)

lemma v0Loop_eventCounter: "registry (v0Loop coll fullV0s t) h_EventCounter = registry t h_EventCounter"
  by (induction fullV0s arbitrary: t) (simp_all add: processV0_eventCounter)

lemma eventCounter_fill_0:
  "eventCounter b (fill h_EventCounter [Fin 0] t) = eventCounter b t + (if b = TotalBin then 1 else 0)"
  by (auto simp add: eventCounter_def binContent_def fill_def findBin_def TotalBin_def)

lemma eventCounter_fill_1:
  "eventCounter b (fill h_EventCounter [Fin 1] t) = eventCounter b t + (if b = SelectedBin then 1 else 0)"
  by (auto simp add: eventCounter_def binContent_def fill_def findBin_def SelectedBin_def)

lemma eventCounter_v0Loop: "eventCounter b (v0Loop coll fullV0s t) = eventCounter b t"
  by (simp add: eventCounter_def v0Loop_eventCounter)

lemma eventSelection_fill: "eventSelection (fill h xs t) = eventSelection t"
  by (simp add: fill_def)

lemma eventCounter_process:
  "eventCounter b (process coll fullV0s t) =
     eventCounter b t + (if b = TotalBin then 1 else 0)
       + (if b = SelectedBin \<and> \<not> (eventSelection t \<and> \<not> sel8 coll) then 1 else 0)"
  by (simp add: process_def Let_def eventCounter_v0Loop eventCounter_fill_0 eventCounter_fill_1
        eventSelection_fill)

lemma eventCounter_init: "eventCounter b (init t) = 0"
  by (simp add: eventCounter_def init_def emptyRegistry_def binContent_def)

lemma processBatch_Total:
  "eventCounter TotalBin (processBatch evs t) = eventCounter TotalBin t + length evs"
  by (induction evs arbitrary: t) (auto simp add: eventCounter_process TotalBin_def SelectedBin_def)

lemma processBatch_Selected:
  "eventCounter SelectedBin t \<le> eventCounter SelectedBin (processBatch evs t)
   \<and> eventCounter SelectedBin (processBatch evs t) \<le> eventCounter SelectedBin t + length evs"
proof (induction evs arbitrary: t)
  case Nil
  show ?case by simp
next
  case (Cons ev evs)
  obtain coll fullV0s where ev: "ev = (coll, fullV0s)"
    by (cases ev)
  have "eventCounter SelectedBin t \<le> eventCounter SelectedBin (process coll fullV0s t)"
    and "eventCounter SelectedBin (process coll fullV0s t) \<le> eventCounter SelectedBin t + 1"
    by (simp_all add: eventCounter_process TotalBin_def SelectedBin_def)
  with Cons [of "process coll fullV0s t"] show ?case
    unfolding ev by simp
qed

lemma acceptV0_spec_no_NaN:
  assumes "v0cosPA v0 (posX coll) (posY coll) (posZ coll) \<noteq> NaN" "v0cospa t \<noteq> NaN"
    and "yK0Short v0 \<noteq> NaN" "rapidity t \<noteq> NaN"
    and "tpcNSigmaPi ptrack \<noteq> NaN" "tpcNSigmaPi ntrack \<noteq> NaN" "nSigTPC t \<noteq> NaN"
  shows "fst (acceptV0 t v0 ptrack ntrack coll) = acceptV0_spec t v0 ptrack ntrack coll"
  using assms
  by (simp add: acceptV0_fst acceptV0_spec_def fp_ge_def fp_le_def fp_greater_def fp_abs_NaN)

lemmas ex_defs = exTask_def exV0_def exTrack_def exCollision_def cosPA_const_def init_def
  configurableDefaults_def emptyRegistry_def

lemma processV0_posTrack_hasITS:
  "processV0 coll (v0\<lparr>posTrack := (posTrack v0)\<lparr>hasITS := b\<rparr>\<rparr>) t = processV0 coll v0 t"
proof -
  let ?v = "v0\<lparr>posTrack := (posTrack v0)\<lparr>hasITS := b\<rparr>\<rparr>"
  have acc: "fst (acceptV0 t ?v (posTrack ?v) (negTrack ?v) coll)
      = fst (acceptV0 t v0 (posTrack v0) (negTrack v0) coll)"
    by (simp add: acceptV0_fst)
  show ?thesis
  proof (cases "fst (acceptV0 t v0 (posTrack v0) (negTrack v0) coll)")
    case True
    with acc have "fst (acceptV0 t ?v (posTrack ?v) (negTrack ?v) coll)"
      by simp
    from processV0_accepted [OF this] processV0_accepted [OF True] show ?thesis
      by simp
  next
    case False
    with acc have "\<not> fst (acceptV0 t ?v (posTrack ?v) (negTrack ?v) coll)"
      by simp
    from processV0_rejected [OF this] processV0_rejected [OF False] show ?thesis
      by simp
  qed
qed

lemma itsStatusInv_processV0: "itsStatusInv t \<Longrightarrow> itsStatusInv (processV0 coll v0 t)"
  by (cases "fst (acceptV0 t v0 (posTrack v0) (negTrack v0) coll)")
     (simp_all add: processV0_accepted processV0_rejected itsStatusInv_def)

lemma itsStatusInv_v0Loop: "itsStatusInv t \<Longrightarrow> itsStatusInv (v0Loop coll fullV0s t)"
  by (induction fullV0s arbitrary: t) (simp_all add: itsStatusInv_processV0)

lemma itsStatusInv_fill_EventCounter: "itsStatusInv t \<Longrightarrow> itsStatusInv (fill h_EventCounter xs t)"
  by (simp add: itsStatusInv_def fill_def)

lemma itsStatusInv_process: "itsStatusInv t \<Longrightarrow> itsStatusInv (process coll fullV0s t)"
  by (simp add: process_def Let_def itsStatusInv_v0Loop itsStatusInv_fill_EventCounter)

lemma itsStatusInv_processBatch: "itsStatusInv t \<Longrightarrow> itsStatusInv (processBatch evs t)"
  by (induction evs arbitrary: t) (auto simp add: itsStatusInv_process)

lemma itsStatusInv_init: "itsStatusInv (init t)"
  by (simp add: itsStatusInv_def init_def emptyRegistry_def)

lemma processBatch_Selected_le_Total:
  "eventCounter SelectedBin t \<le> eventCounter TotalBin t \<Longrightarrow>
   eventCounter SelectedBin (processBatch evs t) \<le> eventCounter TotalBin (processBatch evs t)"
  using processBatch_Selected [of t evs] processBatch_Total [of evs t] by linarith

lemma process_not_selected:
  "eventSelection t \<Longrightarrow> \<not> sel8 coll \<Longrightarrow> process coll fullV0s t = fill h_EventCounter [Fin 0] t"
  by (simp add: process_def Let_def eventSelection_fill)

lemma process_selected:
  "sel8 coll \<Longrightarrow>
   process coll fullV0s t = v0Loop coll fullV0s (fill h_EventCounter [Fin 1] (fill h_EventCounter [Fin 0] t))"
  by (simp add: process_def Let_def)

lemma acceptV0_fill:
  "fst (acceptV0 (fill h xs t) v0 ptrack ntrack coll) = fst (acceptV0 t v0 ptrack ntrack coll)"
  by (simp add: acceptV0_fst fill_def)

lemma innerBarrelHits_spec_7: "innerBarrelHits_spec 7 = 3"
  by (simp add: innerBarrelHits_spec_def bit_numeral_simps numeral_2_eq_2)

section \<open>The acceptance predicate\<close>

text \<open>
  Claim C1, as amended. \<^verbatim>\<open>acceptV0\<close> returns false exactly when the pointing-angle cosine
  at the event vertex is below its threshold, or the absolute rapidity is above its
  threshold, or a daughter has no TPC hit, or a daughter's pion PID deviation is above its
  threshold, each comparison being the C++ one, which a NaN operand makes false. When none
  of the compared values and thresholds is NaN, that is the claim's wording: the V0 is
  accepted if and only if the cosine is at least the threshold, the absolute rapidity at
  most the threshold, both daughters have a TPC hit and both deviations are at most the
  threshold. The claim as written, for every input, fails on a NaN cosine: the counterexample
  is a V0 that \<^verbatim>\<open>acceptV0\<close> accepts although its cosine is not at least the threshold.
\<close>

theorem acceptV0_conditions:
  "fst (acceptV0 t v0 ptrack ntrack coll) =
     (\<not> fp_less (v0cosPA v0 (posX coll) (posY coll) (posZ coll)) (v0cospa t)
      \<and> \<not> fp_greater (fp_abs (yK0Short v0)) (rapidity t)
      \<and> hasTPC ptrack \<and> hasTPC ntrack
      \<and> \<not> fp_greater (tpcNSigmaPi ptrack) (nSigTPC t)
      \<and> \<not> fp_greater (tpcNSigmaPi ntrack) (nSigTPC t))
   \<and> (v0cosPA v0 (posX coll) (posY coll) (posZ coll) \<noteq> NaN \<and> v0cospa t \<noteq> NaN
        \<and> yK0Short v0 \<noteq> NaN \<and> rapidity t \<noteq> NaN
        \<and> tpcNSigmaPi ptrack \<noteq> NaN \<and> tpcNSigmaPi ntrack \<noteq> NaN \<and> nSigTPC t \<noteq> NaN
       \<longrightarrow> fst (acceptV0 t v0 ptrack ntrack coll) = acceptV0_spec t v0 ptrack ntrack coll)"
  using acceptV0_fst [of t v0 ptrack ntrack coll] acceptV0_spec_no_NaN [of v0 coll t ptrack ntrack]
  by blast

theorem acceptV0_conditions_witness:
  "fst (acceptV0 (exTask True) (exV0 (Fin 0.999) (exTrack True 7 (Fin 1)) (exTrack True 7 (Fin 1)))
         (exTrack True 7 (Fin 1)) (exTrack True 7 (Fin 1)) (exCollision True))
   \<and> acceptV0_spec (exTask True) (exV0 (Fin 0.999) (exTrack True 7 (Fin 1)) (exTrack True 7 (Fin 1)))
         (exTrack True 7 (Fin 1)) (exTrack True 7 (Fin 1)) (exCollision True)
   \<and> \<not> fst (acceptV0 (exTask True) (exV0 (Fin 0.99) (exTrack True 7 (Fin 1)) (exTrack True 7 (Fin 1)))
         (exTrack True 7 (Fin 1)) (exTrack True 7 (Fin 1)) (exCollision True))
   \<and> \<not> acceptV0_spec (exTask True) (exV0 (Fin 0.99) (exTrack True 7 (Fin 1)) (exTrack True 7 (Fin 1)))
         (exTrack True 7 (Fin 1)) (exTrack True 7 (Fin 1)) (exCollision True)"
  using acceptV0_conditions [of "exTask True"
      "exV0 (Fin 0.999) (exTrack True 7 (Fin 1)) (exTrack True 7 (Fin 1))"
      "exTrack True 7 (Fin 1)" "exTrack True 7 (Fin 1)" "exCollision True"]
    acceptV0_conditions [of "exTask True"
      "exV0 (Fin 0.99) (exTrack True 7 (Fin 1)) (exTrack True 7 (Fin 1))"
      "exTrack True 7 (Fin 1)" "exTrack True 7 (Fin 1)" "exCollision True"]
  by (simp add: acceptV0_def acceptV0_spec_def ex_defs fp_greater_def fp_ge_def fp_le_def)

theorem acceptV0_NaN_counterexample:
  "fst (acceptV0 (exTask True) (exV0 NaN (exTrack True 7 (Fin 1)) (exTrack True 7 (Fin 1)))
         (exTrack True 7 (Fin 1)) (exTrack True 7 (Fin 1)) (exCollision True))
   \<and> \<not> fp_ge (v0cosPA (exV0 NaN (exTrack True 7 (Fin 1)) (exTrack True 7 (Fin 1)))
                 (posX (exCollision True)) (posY (exCollision True)) (posZ (exCollision True)))
               (v0cospa (exTask True))
   \<and> \<not> acceptV0_spec (exTask True) (exV0 NaN (exTrack True 7 (Fin 1)) (exTrack True 7 (Fin 1)))
         (exTrack True 7 (Fin 1)) (exTrack True 7 (Fin 1)) (exCollision True)"
  by (simp add: acceptV0_def acceptV0_spec_def ex_defs fp_greater_def fp_ge_def fp_le_def)

text \<open>
  Claim C8. The PID cut is an upper bound only: when both daughters' deviations are at most
  the threshold, however far below zero, the PID cut rejects nothing, and the V0 is accepted
  exactly when the other three conditions pass. The witness has the deviations
  \<open>- 1000000\<close> and minus infinity under the default threshold 10.
\<close>

theorem pid_cut_upper_bound_only:
  assumes "fp_le (tpcNSigmaPi ptrack) (nSigTPC t)" and "fp_le (tpcNSigmaPi ntrack) (nSigTPC t)"
  shows "fst (acceptV0 t v0 ptrack ntrack coll) =
     (\<not> fp_less (v0cosPA v0 (posX coll) (posY coll) (posZ coll)) (v0cospa t)
      \<and> \<not> fp_greater (fp_abs (yK0Short v0)) (rapidity t)
      \<and> hasTPC ptrack \<and> hasTPC ntrack)"
  using assms by (simp add: acceptV0_fst fp_le_def fp_greater_def)

theorem pid_cut_upper_bound_only_witness:
  "fp_le (tpcNSigmaPi (exTrack True 7 (Fin (- 1000000)))) (nSigTPC (exTask True))
   \<and> fp_le (tpcNSigmaPi (exTrack True 7 NegInf)) (nSigTPC (exTask True))
   \<and> fst (acceptV0 (exTask True)
            (exV0 (Fin 0.999) (exTrack True 7 (Fin (- 1000000))) (exTrack True 7 NegInf))
            (exTrack True 7 (Fin (- 1000000))) (exTrack True 7 NegInf) (exCollision True))"
proof -
  have p: "fp_le (tpcNSigmaPi (exTrack True 7 (Fin (- 1000000)))) (nSigTPC (exTask True))"
    by (simp add: ex_defs fp_le_def)
  have n: "fp_le (tpcNSigmaPi (exTrack True 7 NegInf)) (nSigTPC (exTask True))"
    by (simp add: ex_defs fp_le_def)
  show ?thesis
    using p n pid_cut_upper_bound_only [OF p n, of
        "exV0 (Fin 0.999) (exTrack True 7 (Fin (- 1000000))) (exTrack True 7 NegInf)"
        "exCollision True"]
    by (simp add: ex_defs fp_greater_def)
qed

text \<open>
  Claim C9. \<^verbatim>\<open>acceptV0\<close> returns the task as it received it, so it fills no histogram and
  changes no configurable, and its boolean depends on the task only through the three
  thresholds: two tasks with the same thresholds, whatever their registries hold, give the
  same answer on the same rows. The rows are passed by value and are immutable values here.
\<close>

theorem acceptV0_pure:
  "snd (acceptV0 t v0 ptrack ntrack coll) = t
   \<and> (v0cospa t = v0cospa t' \<and> rapidity t = rapidity t' \<and> nSigTPC t = nSigTPC t'
       \<longrightarrow> fst (acceptV0 t v0 ptrack ntrack coll) = fst (acceptV0 t' v0 ptrack ntrack coll))"
  by (simp add: acceptV0_snd acceptV0_fst)

theorem acceptV0_pure_witness:
  "snd (acceptV0 (exTask True) (exV0 (Fin 0.999) (exTrack True 7 (Fin 1)) (exTrack True 7 (Fin 1)))
         (exTrack True 7 (Fin 1)) (exTrack True 7 (Fin 1)) (exCollision True)) = exTask True
   \<and> fst (acceptV0 (exTask True) (exV0 (Fin 0.999) (exTrack True 7 (Fin 1)) (exTrack True 7 (Fin 1)))
         (exTrack True 7 (Fin 1)) (exTrack True 7 (Fin 1)) (exCollision True))
     = fst (acceptV0 (fill Test_h_R [Fin 1] (exTask False))
         (exV0 (Fin 0.999) (exTrack True 7 (Fin 1)) (exTrack True 7 (Fin 1)))
         (exTrack True 7 (Fin 1)) (exTrack True 7 (Fin 1)) (exCollision True))"
  using acceptV0_pure [of "exTask True"
      "exV0 (Fin 0.999) (exTrack True 7 (Fin 1)) (exTrack True 7 (Fin 1))"
      "exTrack True 7 (Fin 1)" "exTrack True 7 (Fin 1)" "exCollision True"
      "fill Test_h_R [Fin 1] (exTask False)"]
  by (simp add: ex_defs fill_def)

text \<open>
  Claim C10. The result of \<^verbatim>\<open>acceptV0\<close> does not change when the \<^verbatim>\<open>hasITS\<close> flag and the
  ITS cluster map of either daughter are replaced by any other values, in the track
  arguments and in the rows the V0 refers to.
\<close>

theorem acceptV0_ignores_ITS:
  "acceptV0 t (v0\<lparr>posTrack := x, negTrack := y\<rparr>)
      (ptrack\<lparr>hasITS := a, itsClusterMap := m\<rparr>) (ntrack\<lparr>hasITS := b, itsClusterMap := k\<rparr>) coll
   = acceptV0 t v0 ptrack ntrack coll"
  by (simp add: acceptV0_def)

theorem acceptV0_ignores_ITS_witness:
  "acceptV0 (exTask True)
      ((exV0 (Fin 0.999) (exTrack True 7 (Fin 1)) (exTrack True 7 (Fin 1)))
         \<lparr>posTrack := exTrack False 0 (Fin 1), negTrack := exTrack False 0 (Fin 1)\<rparr>)
      ((exTrack True 7 (Fin 1))\<lparr>hasITS := False, itsClusterMap := 0\<rparr>)
      ((exTrack True 7 (Fin 1))\<lparr>hasITS := False, itsClusterMap := 0\<rparr>) (exCollision True)
   = (True, exTask True)"
  using acceptV0_ignores_ITS [where t = "exTask True"
      and ?v0.0 = "exV0 (Fin 0.999) (exTrack True 7 (Fin 1)) (exTrack True 7 (Fin 1))"
      and x = "exTrack False 0 (Fin 1)" and y = "exTrack False 0 (Fin 1)"
      and ptrack = "exTrack True 7 (Fin 1)" and a = False and m = 0
      and ntrack = "exTrack True 7 (Fin 1)" and b = False and k = 0 and coll = "exCollision True"]
  by (simp add: acceptV0_def ex_defs fp_greater_def)

section \<open>Event counting\<close>

text \<open>
  Claim C3. Each call of \<^verbatim>\<open>process\<close> adds exactly one to the "Total" bin of
  \<^verbatim>\<open>h_EventCounter\<close> and nothing or one to the "Selected" bin. Over a batch of events
  the "Total" bin grows by the number of events and the "Selected" bin by at most that
  number and never shrinks; "Selected" at most "Total" is preserved by every batch, and it
  holds after any batch that starts from the registry as \<^verbatim>\<open>init\<close> leaves it.
\<close>

theorem eventCounter_Total_Selected:
  "eventCounter TotalBin (process coll fullV0s t) = eventCounter TotalBin t + 1
   \<and> (eventCounter SelectedBin (process coll fullV0s t) = eventCounter SelectedBin t
        \<or> eventCounter SelectedBin (process coll fullV0s t) = eventCounter SelectedBin t + 1)
   \<and> eventCounter TotalBin (processBatch evs t) = eventCounter TotalBin t + length evs
   \<and> eventCounter SelectedBin t \<le> eventCounter SelectedBin (processBatch evs t)
   \<and> eventCounter SelectedBin (processBatch evs t) \<le> eventCounter SelectedBin t + length evs
   \<and> (eventCounter SelectedBin t \<le> eventCounter TotalBin t \<longrightarrow>
        eventCounter SelectedBin (processBatch evs t) \<le> eventCounter TotalBin (processBatch evs t))
   \<and> eventCounter TotalBin (processBatch evs (init t)) = length evs
   \<and> eventCounter SelectedBin (processBatch evs (init t))
        \<le> eventCounter TotalBin (processBatch evs (init t))"
proof -
  have one: "eventCounter TotalBin (process coll fullV0s t) = eventCounter TotalBin t + 1"
    by (simp add: eventCounter_process TotalBin_def SelectedBin_def)
  have sel: "eventCounter SelectedBin (process coll fullV0s t) = eventCounter SelectedBin t
        \<or> eventCounter SelectedBin (process coll fullV0s t) = eventCounter SelectedBin t + 1"
    by (simp add: eventCounter_process TotalBin_def SelectedBin_def)
  have tot0: "eventCounter TotalBin (processBatch evs (init t)) = length evs"
    by (simp add: processBatch_Total eventCounter_init)
  have sel0: "eventCounter SelectedBin (processBatch evs (init t)) \<le> length evs"
    using processBatch_Selected [of "init t" evs] by (simp add: eventCounter_init)
  from tot0 sel0 have le0: "eventCounter SelectedBin (processBatch evs (init t))
      \<le> eventCounter TotalBin (processBatch evs (init t))"
    by simp
  from one sel tot0 le0 processBatch_Total [of evs t] processBatch_Selected [of t evs]
    processBatch_Selected_le_Total [of t evs]
  show ?thesis by blast
qed

theorem eventCounter_Total_Selected_witness:
  "eventCounter TotalBin (processBatch [(exCollision True, []), (exCollision False, [])] (init (exTask True))) = 2
   \<and> eventCounter SelectedBin (processBatch [(exCollision True, []), (exCollision False, [])] (init (exTask True))) = 1
   \<and> eventCounter SelectedBin (init (exTask True)) \<le> eventCounter TotalBin (init (exTask True))"
  using eventCounter_Total_Selected [where t = "init (exTask True)"
      and evs = "[(exCollision True, []), (exCollision False, [])]"
      and coll = "exCollision True" and fullV0s = "[]"]
  by (simp add: eventCounter_def binContent_def process_def fill_def findBin_def
        TotalBin_def SelectedBin_def ex_defs Let_def)

text \<open>
  Claim C4, as amended. A call of \<^verbatim>\<open>process\<close> adds one to the "Selected" bin exactly
  when the event passes \<^verbatim>\<open>sel8\<close> or the configurable \<^verbatim>\<open>eventSelection\<close> is off, and
  nothing otherwise: with event selection on (the default) an event whose quality flag is
  false never adds to "Selected". The claim as written, for every setting of the
  configurable, fails with event selection off: the counterexample is an event with a false
  quality flag that is counted in "Selected".
\<close>

theorem Selected_increment:
  "eventCounter SelectedBin (process coll fullV0s t) =
     eventCounter SelectedBin t + (if sel8 coll \<or> \<not> eventSelection t then 1 else 0)"
  by (simp add: eventCounter_process TotalBin_def SelectedBin_def)

theorem Selected_increment_witness:
  "eventCounter SelectedBin (process (exCollision False) [] (exTask True)) = 0
   \<and> eventCounter SelectedBin (process (exCollision True) [] (exTask True)) = 1"
  using Selected_increment [where coll = "exCollision False" and fullV0s = "[]" and t = "exTask True"]
    Selected_increment [where coll = "exCollision True" and fullV0s = "[]" and t = "exTask True"]
  by (simp add: eventCounter_def binContent_def ex_defs)

theorem Selected_without_sel8_counterexample:
  "\<not> sel8 (exCollision False)
   \<and> eventCounter SelectedBin (exTask False) = 0
   \<and> eventCounter SelectedBin (process (exCollision False) [] (exTask False)) = 1"
  by (simp add: eventCounter_def binContent_def process_def fill_def findBin_def
        SelectedBin_def ex_defs Let_def)

text \<open>
  Claim C5. With event selection on and an event that fails \<^verbatim>\<open>sel8\<close>, \<^verbatim>\<open>process\<close> does
  one fill of \<^verbatim>\<open>h_EventCounter\<close> at 0 and nothing else: the result does not depend on the
  V0s of the event, every other histogram is as before, the "Total" bin has grown by one,
  every other bin of \<^verbatim>\<open>h_EventCounter\<close> and every configurable is unchanged.
\<close>

theorem rejected_event_only_Total:
  assumes "eventSelection t" and "\<not> sel8 coll"
  shows "process coll fullV0s t = fill h_EventCounter [Fin 0] t
     \<and> process coll fullV0s t = process coll [] t
     \<and> (\<forall>h. h \<noteq> h_EventCounter \<longrightarrow> registry (process coll fullV0s t) h = registry t h)
     \<and> eventCounter TotalBin (process coll fullV0s t) = eventCounter TotalBin t + 1
     \<and> (\<forall>b. b \<noteq> TotalBin \<longrightarrow> eventCounter b (process coll fullV0s t) = eventCounter b t)
     \<and> v0cospa (process coll fullV0s t) = v0cospa t
     \<and> rapidity (process coll fullV0s t) = rapidity t
     \<and> nSigTPC (process coll fullV0s t) = nSigTPC t
     \<and> eventSelection (process coll fullV0s t) = eventSelection t"
proof -
  have p: "process coll vs t = fill h_EventCounter [Fin 0] t" for vs
    using assms by (rule process_not_selected)
  show ?thesis
    unfolding p by (simp add: eventCounter_fill_0) (simp add: fill_def)
qed

theorem rejected_event_only_Total_witness:
  "eventSelection (exTask True) \<and> \<not> sel8 (exCollision False)
   \<and> registry (process (exCollision False)
        [exV0 (Fin 0.999) (exTrack True 7 (Fin 1)) (exTrack True 7 (Fin 1))] (exTask True)) h_EventCounter
       = [[Fin 0]]
   \<and> registry (process (exCollision False)
        [exV0 (Fin 0.999) (exTrack True 7 (Fin 1)) (exTrack True 7 (Fin 1))] (exTask True)) h5_RpTmassITSStatus
       = []"
proof -
  have e: "eventSelection (exTask True)" and s: "\<not> sel8 (exCollision False)"
    by (simp_all add: ex_defs)
  show ?thesis
    using e s rejected_event_only_Total [OF e s,
        where fullV0s = "[exV0 (Fin 0.999) (exTrack True 7 (Fin 1)) (exTrack True 7 (Fin 1))]"]
    by (simp add: fill_def ex_defs)
qed

section \<open>What is recorded for an accepted V0\<close>

text \<open>
  Claim C2. For an accepted V0 the loop body fills \<^verbatim>\<open>Test/h_negITSStatus\<close> and
  \<^verbatim>\<open>Test/h_posITSStatus\<close> each with the \<^verbatim>\<open>hasITS\<close> flag of the negative track, and
  \<^verbatim>\<open>h5_RpTmassITSStatus\<close> with radius, transverse momentum, mass and that flag twice. The
  \<^verbatim>\<open>hasITS\<close> flag of the positive track is never read: replacing it changes nothing in
  what the loop body does. So after any batch of events that starts from the registry as
  \<^verbatim>\<open>init\<close> leaves it, every fill of \<^verbatim>\<open>h5_RpTmassITSStatus\<close> has equal fourth and fifth
  coordinates, and the two one-dimensional status histograms hold the same fills.
\<close>

theorem itsStatus_from_negTrack:
  "(fst (acceptV0 t v0 (posTrack v0) (negTrack v0) coll) \<longrightarrow>
      registry (processV0 coll v0 t) Test_h_negITSStatus
        = registry t Test_h_negITSStatus @ [[fp_of_bool (hasITS (negTrack v0))]]
      \<and> registry (processV0 coll v0 t) Test_h_posITSStatus
        = registry t Test_h_posITSStatus @ [[fp_of_bool (hasITS (negTrack v0))]]
      \<and> registry (processV0 coll v0 t) h5_RpTmassITSStatus
        = registry t h5_RpTmassITSStatus @
            [[v0radius v0, pt v0, mK0Short v0, fp_of_bool (hasITS (negTrack v0)),
              fp_of_bool (hasITS (negTrack v0))]])
   \<and> processV0 coll (v0\<lparr>posTrack := (posTrack v0)\<lparr>hasITS := b\<rparr>\<rparr>) t = processV0 coll v0 t
   \<and> (\<forall>xs \<in> set (registry (processBatch evs (init t)) h5_RpTmassITSStatus). xs ! 3 = xs ! 4)
   \<and> registry (processBatch evs (init t)) Test_h_negITSStatus
       = registry (processBatch evs (init t)) Test_h_posITSStatus"
proof -
  have "itsStatusInv (processBatch evs (init t))"
    by (rule itsStatusInv_processBatch) (rule itsStatusInv_init)
  then show ?thesis
    unfolding itsStatusInv_def
    by (simp add: processV0_accepted processV0_posTrack_hasITS)
qed

theorem itsStatus_from_negTrack_witness:
  "fst (acceptV0 (exTask True) (exV0 (Fin 0.999) (exTrack True 7 (Fin 1)) (exTrack False 7 (Fin 1)))
          (exTrack True 7 (Fin 1)) (exTrack False 7 (Fin 1)) (exCollision True))
   \<and> registry (processV0 (exCollision True)
                 (exV0 (Fin 0.999) (exTrack True 7 (Fin 1)) (exTrack False 7 (Fin 1))) (exTask True))
        h5_RpTmassITSStatus = [[Fin 2.5, Fin 1.2, Fin 0.4976, Fin 0, Fin 0]]
   \<and> registry (processV0 (exCollision True)
                 (exV0 (Fin 0.999) (exTrack True 7 (Fin 1)) (exTrack False 7 (Fin 1))) (exTask True))
        Test_h_posITSStatus = [[Fin 0]]
   \<and> registry (processBatch
          [(exCollision True, [exV0 (Fin 0.999) (exTrack True 7 (Fin 1)) (exTrack False 7 (Fin 1))])]
          (init (exTask True))) Test_h_negITSStatus = [[Fin 0]]
   \<and> registry (processBatch
          [(exCollision True, [exV0 (Fin 0.999) (exTrack True 7 (Fin 1)) (exTrack False 7 (Fin 1))])]
          (init (exTask True))) Test_h_posITSStatus = [[Fin 0]]"
proof -
  have acc: "fst (acceptV0 (exTask True)
      (exV0 (Fin 0.999) (exTrack True 7 (Fin 1)) (exTrack False 7 (Fin 1)))
      (exTrack True 7 (Fin 1)) (exTrack False 7 (Fin 1)) (exCollision True))"
    by (simp add: acceptV0_def ex_defs fp_greater_def)
  have tr: "posTrack (exV0 (Fin 0.999) (exTrack True 7 (Fin 1)) (exTrack False 7 (Fin 1))) = exTrack True 7 (Fin 1)"
    "negTrack (exV0 (Fin 0.999) (exTrack True 7 (Fin 1)) (exTrack False 7 (Fin 1))) = exTrack False 7 (Fin 1)"
    by (simp_all add: exV0_def)
  show ?thesis
    using acc itsStatus_from_negTrack [where t = "exTask True"
        and ?v0.0 = "exV0 (Fin 0.999) (exTrack True 7 (Fin 1)) (exTrack False 7 (Fin 1))"
        and coll = "exCollision True" and b = True
        and evs = "[(exCollision True, [exV0 (Fin 0.999) (exTrack True 7 (Fin 1)) (exTrack False 7 (Fin 1))])]"]
    unfolding tr
    by (simp add: ex_defs fp_of_bool_def process_def processV0_def acceptV0_def fill_def
          fp_greater_def Let_def ibLoop_result split_def)
qed

text \<open>
  Claim C7. The loop of lines 107 to 114 returns, for each daughter, the number of set bits
  among the bit indices 0, 1 and 2 of its ITS cluster map, an integer from 0 to 3. For an
  accepted V0 that count goes into \<^verbatim>\<open>Test/h_negIBhits\<close> and \<^verbatim>\<open>Test/h_posIBhits\<close>, and the
  boolean (count \<open>> 0\<close>) into \<^verbatim>\<open>Test/h_negIBStatus\<close>, \<^verbatim>\<open>Test/h_posIBStatus\<close> and the last two
  coordinates of \<^verbatim>\<open>h5_RpTmassIBStatus\<close>. The witness has the cluster maps 3 (bits 0 and 1,
  count 2) and 0 (count 0).
\<close>

theorem innerBarrel_hit_count:
  "ibLoop 0 reconegtrack recopostrack (0, 0)
     = (innerBarrelHits_spec (itsClusterMap reconegtrack), innerBarrelHits_spec (itsClusterMap recopostrack))
   \<and> 0 \<le> innerBarrelHits_spec m \<and> innerBarrelHits_spec m \<le> 3
   \<and> (fst (acceptV0 t v0 (posTrack v0) (negTrack v0) coll) \<longrightarrow>
        registry (processV0 coll v0 t) Test_h_negIBhits
          = registry t Test_h_negIBhits @ [[fp_of_int (innerBarrelHits_spec (itsClusterMap (negTrack v0)))]]
        \<and> registry (processV0 coll v0 t) Test_h_posIBhits
          = registry t Test_h_posIBhits @ [[fp_of_int (innerBarrelHits_spec (itsClusterMap (posTrack v0)))]]
        \<and> registry (processV0 coll v0 t) Test_h_negIBStatus
          = registry t Test_h_negIBStatus @
              [[fp_of_bool (innerBarrelHits_spec (itsClusterMap (negTrack v0)) > 0)]]
        \<and> registry (processV0 coll v0 t) Test_h_posIBStatus
          = registry t Test_h_posIBStatus @
              [[fp_of_bool (innerBarrelHits_spec (itsClusterMap (posTrack v0)) > 0)]]
        \<and> registry (processV0 coll v0 t) h5_RpTmassIBStatus
          = registry t h5_RpTmassIBStatus @
              [[v0radius v0, pt v0, mK0Short v0,
                fp_of_bool (innerBarrelHits_spec (itsClusterMap (negTrack v0)) > 0),
                fp_of_bool (innerBarrelHits_spec (itsClusterMap (posTrack v0)) > 0)]])"
proof -
  have pos: "(innerBarrelHits_spec k \<noteq> 0) = (innerBarrelHits_spec k > 0)" for k
    using innerBarrelHits_spec_range [of k] by linarith
  show ?thesis
    by (simp add: ibLoop_result innerBarrelHits_spec_range processV0_accepted pos)
qed

theorem innerBarrel_hit_count_witness:
  "ibLoop 0 (exTrack True 3 (Fin 1)) (exTrack True 0 (Fin 1)) (0, 0) = (2, 0)
   \<and> fst (acceptV0 (exTask True) (exV0 (Fin 0.999) (exTrack True 0 (Fin 1)) (exTrack True 3 (Fin 1)))
          (exTrack True 0 (Fin 1)) (exTrack True 3 (Fin 1)) (exCollision True))
   \<and> registry (processV0 (exCollision True)
         (exV0 (Fin 0.999) (exTrack True 0 (Fin 1)) (exTrack True 3 (Fin 1))) (exTask True))
        Test_h_negIBhits = [[Fin 2]]
   \<and> registry (processV0 (exCollision True)
         (exV0 (Fin 0.999) (exTrack True 0 (Fin 1)) (exTrack True 3 (Fin 1))) (exTask True))
        Test_h_posIBhits = [[Fin 0]]
   \<and> registry (processV0 (exCollision True)
         (exV0 (Fin 0.999) (exTrack True 0 (Fin 1)) (exTrack True 3 (Fin 1))) (exTask True))
        h5_RpTmassIBStatus = [[Fin 2.5, Fin 1.2, Fin 0.4976, Fin 1, Fin 0]]"
proof -
  let ?v = "exV0 (Fin 0.999) (exTrack True 0 (Fin 1)) (exTrack True 3 (Fin 1))"
  have tr: "posTrack ?v = exTrack True 0 (Fin 1)" "negTrack ?v = exTrack True 3 (Fin 1)"
    by (simp_all add: exV0_def)
  have acc: "fst (acceptV0 (exTask True) ?v (exTrack True 0 (Fin 1)) (exTrack True 3 (Fin 1)) (exCollision True))"
    by (simp add: acceptV0_fst ex_defs fp_greater_def)
  have h: "innerBarrelHits_spec 3 = 2" "innerBarrelHits_spec 0 = 0"
    by (simp_all add: innerBarrelHits_spec_def bit_numeral_simps numeral_2_eq_2)
  show ?thesis
    using acc innerBarrel_hit_count [where reconegtrack = "exTrack True 3 (Fin 1)"
        and recopostrack = "exTrack True 0 (Fin 1)" and t = "exTask True" and ?v0.0 = ?v
        and coll = "exCollision True" and m = 3]
    unfolding tr
    by (simp add: h ex_defs fp_of_int_def fp_of_bool_def)
qed

text \<open>
  Claim C6, as amended. Under the default configurables, for an event with a true quality
  flag and exactly one V0 with pointing-angle cosine 0.999, rapidity 0.1, a TPC hit and PID
  deviation 1 on both daughters and cluster map \<open>0b111\<close> on both daughters, \<^verbatim>\<open>acceptV0\<close>
  returns true, \<^verbatim>\<open>h5_RpTmassIBStatus\<close> receives exactly one fill, (radius, pT, mass, true,
  true), and \<^verbatim>\<open>h5_RpTmassITSStatus\<close> receives exactly one fill, (radius, pT, mass, h, h),
  where h is the \<^verbatim>\<open>hasITS\<close> flag of the negative daughter; that fill is (radius, pT, mass,
  true, true) when the negative daughter has the flag. The claim as written does not
  constrain \<^verbatim>\<open>hasITS\<close>, a column of its own beside the cluster map: the counterexample is
  the scenario of the claim with a negative daughter whose flag is false, where the fill of
  \<^verbatim>\<open>h5_RpTmassITSStatus\<close> is (radius, pT, mass, false, false).
\<close>

theorem end_to_end_single_V0:
  assumes "sel8 coll"
    and "v0cosPA v0 (posX coll) (posY coll) (posZ coll) = Fin 0.999"
    and "yK0Short v0 = Fin 0.1"
    and "hasTPC (posTrack v0)" and "hasTPC (negTrack v0)"
    and "tpcNSigmaPi (posTrack v0) = Fin 1" and "tpcNSigmaPi (negTrack v0) = Fin 1"
    and "itsClusterMap (posTrack v0) = 7" and "itsClusterMap (negTrack v0) = 7"
  shows "fst (acceptV0 (configurableDefaults reg) v0 (posTrack v0) (negTrack v0) coll)
     \<and> registry (process coll [v0] (configurableDefaults reg)) h5_RpTmassIBStatus
         = reg h5_RpTmassIBStatus @ [[v0radius v0, pt v0, mK0Short v0, fp_of_bool True, fp_of_bool True]]
     \<and> registry (process coll [v0] (configurableDefaults reg)) h5_RpTmassITSStatus
         = reg h5_RpTmassITSStatus @
             [[v0radius v0, pt v0, mK0Short v0, fp_of_bool (hasITS (negTrack v0)),
               fp_of_bool (hasITS (negTrack v0))]]
     \<and> (hasITS (negTrack v0) \<longrightarrow>
          registry (process coll [v0] (configurableDefaults reg)) h5_RpTmassITSStatus
            = reg h5_RpTmassITSStatus @
                [[v0radius v0, pt v0, mK0Short v0, fp_of_bool True, fp_of_bool True]])"
proof -
  let ?t = "configurableDefaults reg"
  let ?t2 = "fill h_EventCounter [Fin 1] (fill h_EventCounter [Fin 0] ?t)"
  have acc: "fst (acceptV0 ?t v0 (posTrack v0) (negTrack v0) coll)"
    using assms by (simp add: acceptV0_fst configurableDefaults_def fp_greater_def)
  then have acc2: "fst (acceptV0 ?t2 v0 (posTrack v0) (negTrack v0) coll)"
    by (simp add: acceptV0_fill)
  have p: "process coll [v0] ?t = processV0 coll v0 ?t2"
    using assms(1) by (simp add: process_selected)
  have r: "registry ?t2 h5_RpTmassIBStatus = reg h5_RpTmassIBStatus"
    "registry ?t2 h5_RpTmassITSStatus = reg h5_RpTmassITSStatus"
    by (simp_all add: fill_def configurableDefaults_def)
  show ?thesis
    using acc assms(8,9) unfolding p processV0_accepted [OF acc2]
    by (simp add: r innerBarrelHits_spec_7)
qed

theorem end_to_end_single_V0_witness:
  "fst (acceptV0 (configurableDefaults emptyRegistry)
          (exV0 (Fin 0.999) (exTrack True 7 (Fin 1)) (exTrack True 7 (Fin 1)))
          (exTrack True 7 (Fin 1)) (exTrack True 7 (Fin 1)) (exCollision True))
   \<and> registry (process (exCollision True)
         [exV0 (Fin 0.999) (exTrack True 7 (Fin 1)) (exTrack True 7 (Fin 1))]
         (configurableDefaults emptyRegistry)) h5_RpTmassIBStatus
       = [[Fin 2.5, Fin 1.2, Fin 0.4976, Fin 1, Fin 1]]
   \<and> registry (process (exCollision True)
         [exV0 (Fin 0.999) (exTrack True 7 (Fin 1)) (exTrack True 7 (Fin 1))]
         (configurableDefaults emptyRegistry)) h5_RpTmassITSStatus
       = [[Fin 2.5, Fin 1.2, Fin 0.4976, Fin 1, Fin 1]]"
  using end_to_end_single_V0 [where coll = "exCollision True"
      and ?v0.0 = "exV0 (Fin 0.999) (exTrack True 7 (Fin 1)) (exTrack True 7 (Fin 1))"
      and reg = emptyRegistry]
  by (simp add: exV0_def exTrack_def exCollision_def cosPA_const_def emptyRegistry_def fp_of_bool_def)

theorem end_to_end_negTrack_without_ITS_counterexample:
  "sel8 (exCollision True)
   \<and> fst (acceptV0 (configurableDefaults emptyRegistry)
          (exV0 (Fin 0.999) (exTrack True 7 (Fin 1)) (exTrack False 7 (Fin 1)))
          (exTrack True 7 (Fin 1)) (exTrack False 7 (Fin 1)) (exCollision True))
   \<and> registry (process (exCollision True)
         [exV0 (Fin 0.999) (exTrack True 7 (Fin 1)) (exTrack False 7 (Fin 1))]
         (configurableDefaults emptyRegistry)) h5_RpTmassITSStatus
       = [[Fin 2.5, Fin 1.2, Fin 0.4976, fp_of_bool False, fp_of_bool False]]
   \<and> registry (process (exCollision True)
         [exV0 (Fin 0.999) (exTrack True 7 (Fin 1)) (exTrack False 7 (Fin 1))]
         (configurableDefaults emptyRegistry)) h5_RpTmassITSStatus
       \<noteq> [[Fin 2.5, Fin 1.2, Fin 0.4976, fp_of_bool True, fp_of_bool True]]"
proof -
  let ?v = "exV0 (Fin 0.999) (exTrack True 7 (Fin 1)) (exTrack False 7 (Fin 1))"
  let ?t2 = "fill h_EventCounter [Fin 1] (fill h_EventCounter [Fin 0] (configurableDefaults emptyRegistry))"
  have s: "sel8 (exCollision True)"
    by (simp add: exCollision_def)
  have tr: "posTrack ?v = exTrack True 7 (Fin 1)" "negTrack ?v = exTrack False 7 (Fin 1)"
    by (simp_all add: exV0_def)
  have acc: "fst (acceptV0 (configurableDefaults emptyRegistry) ?v (posTrack ?v) (negTrack ?v) (exCollision True))"
    by (simp add: acceptV0_fst ex_defs fp_greater_def)
  then have acc2: "fst (acceptV0 ?t2 ?v (posTrack ?v) (negTrack ?v) (exCollision True))"
    by (simp add: acceptV0_fill)
  have "process (exCollision True) [?v] (configurableDefaults emptyRegistry)
      = processV0 (exCollision True) ?v ?t2"
    using s by (simp add: process_selected)
  then show ?thesis
    using s acc unfolding processV0_accepted [OF acc2] tr
    by (simp add: fill_def ex_defs fp_of_bool_def)
qed

end
